theory Spec2Isabelle
  imports Complex_Main "HOL-Library.Sublist"
begin

section \<open>The video-selection service: scoring and ranking\<close>

text \<open>
  A shallow embedding of \<^verbatim>\<open>src/video-selection/main.py\<close>: the scoring function
  \<^verbatim>\<open>calculate_score\<close> and the request handler \<^verbatim>\<open>search_videos_custom_score\<close>.

  Python integers are \<open>int\<close>. Python floats are represented by the real numbers they
  denote: the rounding of IEEE doubles is not modelled, their finite range is, where the
  language turns it into an exception (the true division of two integers).
  Library calls whose code is not part of the repository (the ISO-8601 parser, \<^verbatim>\<open>int\<close>
  on a string, the YouTube client, the URL validation of the response model) are
  parameters of the model.
\<close>

subsection \<open>Exceptions\<close>

datatype py_exception =
    ValueError
  | TypeError
  | KeyError
  | OverflowError
  | ZeroDivisionError
  | ValidationError
  | HttpError nat
  | OtherError

subsection \<open>Scoring configuration\<close>

definition RATIO_WEIGHT :: real where
  "RATIO_WEIGHT = 6 / 10"

definition RECENCY_WEIGHT :: real where
  "RECENCY_WEIGHT = 4 / 10"

definition RECENCY_SCALE_FACTOR :: real where
  "RECENCY_SCALE_FACTOR = 10000000000"

definition INITIAL_FETCH_COUNT :: int where
  "INITIAL_FETCH_COUNT = 50"

subsection \<open>True division of Python integers\<close>

text \<open>
  \<^verbatim>\<open>a / b\<close> on two Python integers raises \<^verbatim>\<open>ZeroDivisionError\<close> when \<open>b\<close> is zero and
  \<^verbatim>\<open>OverflowError\<close> when the correctly rounded quotient is not a finite double, that
  is when its magnitude reaches \<open>2^1024 - 2^970\<close> (half an ulp above the largest double).
\<close>

definition DBL_OVERFLOW :: real where
  "DBL_OVERFLOW = 2 ^ 1024 - 2 ^ 970"

definition py_truediv :: "int \<Rightarrow> int \<Rightarrow> py_exception + real" where
  "py_truediv a b =
     (if b = 0 then Inl ZeroDivisionError
      else if DBL_OVERFLOW \<le> \<bar>real_of_int a / real_of_int b\<bar> then Inl OverflowError
      else Inr (real_of_int a / real_of_int b))"

subsection \<open>The score\<close>

text \<open>\<^verbatim>\<open>published_at_str.replace('Z', '+00:00')\<close>: every occurrence is replaced.\<close>

fun replace_Z :: "string \<Rightarrow> string" where
  "replace_Z [] = []"
| "replace_Z (c # cs) =
     (if c = CHR ''Z'' then ''+00:00'' @ replace_Z cs else c # replace_Z cs)"

text \<open>
  The ratio component, lines 84 to 90. An optional integer is true in a condition when
  it is present and not zero.
\<close>

definition is_true :: "int option \<Rightarrow> bool" where
  "is_true x = (case x of None \<Rightarrow> False | Some n \<Rightarrow> n \<noteq> 0)"

fun ratio_component :: "int option \<Rightarrow> int option \<Rightarrow> py_exception + real" where
  "ratio_component (Some v) (Some l) =
     (if is_true (Some v) \<and> is_true (Some l) \<and> v > 0 then py_truediv l v
      else if is_true (Some l) \<and> l > 0 \<and> v = 0 then Inr (1 / 100)
      else Inr 0)"
| "ratio_component None (Some l) =
     (if is_true (Some l) \<and> l > 0 then Inr (1 / 100) else Inr 0)"
| "ratio_component view_count None = Inr 0"

text \<open>
  \<open>iso_timestamp\<close> stands for \<^verbatim>\<open>datetime.fromisoformat(s).timestamp()\<close>: the POSIX
  timestamp, or the exception the library raised. \<^verbatim>\<open>calculate_score\<close> catches
  \<^verbatim>\<open>ValueError\<close> and \<^verbatim>\<open>TypeError\<close> only.
\<close>

definition calculate_score ::
  "(string \<Rightarrow> py_exception + real) \<Rightarrow> int option \<Rightarrow> int option \<Rightarrow> string
     \<Rightarrow> py_exception + real" where
  "calculate_score iso_timestamp view_count like_count published_at_str =
     (case ratio_component view_count like_count of
        Inl e \<Rightarrow> Inl e
      | Inr ratio_score \<Rightarrow>
          (case iso_timestamp (replace_Z published_at_str) of
             Inr published_timestamp \<Rightarrow>
               Inr (RATIO_WEIGHT * ratio_score
                    + RECENCY_WEIGHT * (published_timestamp / RECENCY_SCALE_FACTOR))
           | Inl e \<Rightarrow>
               if e = ValueError \<or> e = TypeError
               then Inr (RATIO_WEIGHT * ratio_score + RECENCY_WEIGHT * 0)
               else Inl e))"

subsection \<open>The JSON documents of the YouTube client\<close>

text \<open>
  A key that may be missing from a JSON object is an optional field. The search response
  holds \<^verbatim>\<open>items\<close>, each with an \<^verbatim>\<open>id\<close> object holding \<^verbatim>\<open>kind\<close> and \<^verbatim>\<open>videoId\<close>.
\<close>

record resource_id =
  kind :: "string option"
  videoId :: "string option"

record search_result =
  result_id :: "resource_id option"

record search_response =
  search_items :: "search_result list option"

text \<open>The details response: \<^verbatim>\<open>items\<close>, each with \<^verbatim>\<open>id\<close>, \<^verbatim>\<open>snippet\<close> and \<^verbatim>\<open>statistics\<close>.\<close>

record snippet_json =
  sn_publishedAt :: "string option"
  sn_title :: "string option"
  sn_channelTitle :: "string option"
  sn_description :: "string option"

record statistics_json =
  st_viewCount :: "string option"
  st_likeCount :: "string option"

record video_json =
  v_id :: "string option"
  v_snippet :: "snippet_json option"
  v_statistics :: "statistics_json option"

record videos_response =
  videos_items :: "video_json list option"

subsection \<open>The response model and the scored entries\<close>

text \<open>
  \<^verbatim>\<open>VideoItem\<close> (lines 50 to 58); the dictionaries appended to \<^verbatim>\<open>videos_with_scores\<close>
  (lines 178 to 188) have the same keys and \<^verbatim>\<open>customScore\<close>.
\<close>

record VideoItem =
  video_id :: string
  url :: string
  title :: string
  channelTitle :: string
  publishedAt :: string
  description :: "string option"
  viewCount :: "int option"
  likeCount :: "int option"

record scored_video = VideoItem +
  customScore :: real

subsection \<open>The environment of a request\<close>

text \<open>
  The configuration and the library calls the handler depends on. The two \<open>execute\<close>
  fields are the frozen answers of the YouTube client, as a function of the request
  parameters the source sets (\<^verbatim>\<open>q\<close> and \<^verbatim>\<open>maxResults\<close>; \<^verbatim>\<open>id\<close>).
\<close>

record env =
  YOUTUBE_API_KEY :: "string option"
  build_error :: "py_exception option"
  search_execute :: "string \<Rightarrow> int \<Rightarrow> py_exception + search_response"
  videos_execute :: "string \<Rightarrow> py_exception + videos_response"
  fromisoformat_timestamp :: "string \<Rightarrow> py_exception + real"
  py_int :: "string \<Rightarrow> py_exception + int"
  http_url_valid :: "string \<Rightarrow> bool"

datatype outbound = SearchCall string int | VideosCall string

datatype failure = RequestValidationError | HTTPException nat

fun status_code :: "failure \<Rightarrow> nat" where
  "status_code RequestValidationError = 422"
| "status_code (HTTPException n) = n"

definition get_youtube_service :: "env \<Rightarrow> failure + unit" where
  "get_youtube_service e =
     (case YOUTUBE_API_KEY e of
        None \<Rightarrow> Inl (HTTPException 500)
      | Some k \<Rightarrow>
          if k = [] then Inl (HTTPException 500)
          else (case build_error e of
                  Some x \<Rightarrow> Inl (HTTPException 500)
                | None \<Rightarrow> Inr ()))"

subsection \<open>Step 1: the identifiers of the search results\<close>

definition get_search_items :: "search_response \<Rightarrow> search_result list" where
  "get_search_items r = (case search_items r of None \<Rightarrow> [] | Some xs \<Rightarrow> xs)"

text \<open>
  Lines 136 to 139. \<^verbatim>\<open>item.get("id", {}).get("kind")\<close> is \<^verbatim>\<open>None\<close> when either key is
  missing; \<^verbatim>\<open>item["id"]["videoId"]\<close> raises \<^verbatim>\<open>KeyError\<close> when the key is missing.
\<close>

fun collect_video_ids :: "search_result list \<Rightarrow> py_exception + string list" where
  "collect_video_ids [] = Inr []"
| "collect_video_ids (item # items) =
     (case result_id item of
        None \<Rightarrow> collect_video_ids items
      | Some i \<Rightarrow>
          if kind i = Some ''youtube#video''
          then (case videoId i of
                  None \<Rightarrow> Inl KeyError
                | Some v \<Rightarrow>
                    (case collect_video_ids items of
                       Inl e \<Rightarrow> Inl e
                     | Inr video_ids \<Rightarrow> Inr (v # video_ids)))
          else collect_video_ids items)"

subsection \<open>Step 2: the details, in batches\<close>

fun join_comma :: "string list \<Rightarrow> string" where
  "join_comma [] = []"
| "join_comma [x] = x"
| "join_comma (x # y # ys) = x @ '','' @ join_comma (y # ys)"

definition get_videos_items :: "videos_response \<Rightarrow> video_json list" where
  "get_videos_items r = (case videos_items r of None \<Rightarrow> [] | Some xs \<Rightarrow> xs)"

text \<open>
  The slices \<^verbatim>\<open>video_ids[i:i+50]\<close> for \<^verbatim>\<open>i in range(0, len(video_ids), 50)\<close>, from
  index \<open>i\<close> on.
\<close>

function batches :: "'a list \<Rightarrow> nat \<Rightarrow> 'a list list" where
  "batches video_ids i =
     (if i < length video_ids
      then take 50 (drop i video_ids) # batches video_ids (i + 50)
      else [])"
  by pat_completeness auto
termination
  by (relation "measure (\<lambda>(video_ids, i). length video_ids - i)") auto

declare batches.simps [simp del]

text \<open>
  The loop of lines 150 to 157, from index \<open>i\<close> on, with the details and the outbound
  calls accumulated so far. An exception of the client ends the loop.
\<close>

function fetch_details ::
  "(string \<Rightarrow> py_exception + videos_response) \<Rightarrow> string list \<Rightarrow> nat \<Rightarrow> video_json list
     \<Rightarrow> outbound list \<Rightarrow> (py_exception + video_json list) \<times> outbound list" where
  "fetch_details exec video_ids i detailed_videos calls =
     (if i < length video_ids
      then (case exec (join_comma (take 50 (drop i video_ids))) of
              Inl e \<Rightarrow>
                (Inl e, calls @ [VideosCall (join_comma (take 50 (drop i video_ids)))])
            | Inr video_details_response \<Rightarrow>
                fetch_details exec video_ids (i + 50)
                  (detailed_videos @ get_videos_items video_details_response)
                  (calls @ [VideosCall (join_comma (take 50 (drop i video_ids)))]))
      else (Inr detailed_videos, calls))"
  by pat_completeness auto
termination
  by (relation "measure (\<lambda>(exec, video_ids, i, detailed_videos, calls). length video_ids - i)")
    auto

declare fetch_details.simps [simp del]

subsection \<open>Step 3: the score of each video\<close>

text \<open>\<^verbatim>\<open>int(s) if s else None\<close>: a missing or empty string gives \<^verbatim>\<open>None\<close>.\<close>

definition int_or_none ::
  "(string \<Rightarrow> py_exception + int) \<Rightarrow> string option \<Rightarrow> py_exception + int option" where
  "int_or_none to_int s =
     (case s of
        None \<Rightarrow> Inr None
      | Some str \<Rightarrow>
          if str = [] then Inr None
          else (case to_int str of Inl e \<Rightarrow> Inl e | Inr n \<Rightarrow> Inr (Some n)))"

definition get_snippet :: "video_json \<Rightarrow> snippet_json" where
  "get_snippet video_data =
     (case v_snippet video_data of
        None \<Rightarrow> \<lparr>sn_publishedAt = None, sn_title = None, sn_channelTitle = None,
                  sn_description = None\<rparr>
      | Some s \<Rightarrow> s)"

definition get_statistics :: "video_json \<Rightarrow> statistics_json" where
  "get_statistics video_data =
     (case v_statistics video_data of
        None \<Rightarrow> \<lparr>st_viewCount = None, st_likeCount = None\<rparr>
      | Some s \<Rightarrow> s)"

definition get_or :: "'a option \<Rightarrow> 'a \<Rightarrow> 'a" where
  "get_or x d = (case x of None \<Rightarrow> d | Some v \<Rightarrow> v)"

text \<open>
  The body of the loop of lines 162 to 190 for one entry: the exception it raises, or
  the dictionary it appends, or \<open>None\<close> when the entry is skipped.
\<close>

definition score_video :: "env \<Rightarrow> video_json \<Rightarrow> py_exception + scored_video option" where
  "score_video e video_data =
     (case v_id video_data of
        None \<Rightarrow> Inl KeyError
      | Some vid \<Rightarrow>
          (case int_or_none (py_int e) (st_viewCount (get_statistics video_data)) of
             Inl x \<Rightarrow> Inl x
           | Inr view_count \<Rightarrow>
               (case int_or_none (py_int e) (st_likeCount (get_statistics video_data)) of
                  Inl x \<Rightarrow> Inl x
                | Inr like_count \<Rightarrow>
                    (case sn_publishedAt (get_snippet video_data) of
                       None \<Rightarrow> Inr None
                     | Some published_at \<Rightarrow>
                         if published_at = [] then Inr None
                         else (case calculate_score (fromisoformat_timestamp e)
                                      view_count like_count published_at of
                                 Inl x \<Rightarrow> Inl x
                               | Inr score \<Rightarrow>
                                   Inr (Some
                                     \<lparr>video_id = vid,
                                      url = ''https://www.youtube.com/watch?v='' @ vid,
                                      title = get_or (sn_title (get_snippet video_data)) ''N/A'',
                                      channelTitle =
                                        get_or (sn_channelTitle (get_snippet video_data)) ''N/A'',
                                      publishedAt = published_at,
                                      description = sn_description (get_snippet video_data),
                                      viewCount = view_count,
                                      likeCount = like_count,
                                      customScore = score\<rparr>))))))"

fun score_videos :: "env \<Rightarrow> video_json list \<Rightarrow> py_exception + scored_video list" where
  "score_videos e [] = Inr []"
| "score_videos e (video_data # rest) =
     (case score_video e video_data of
        Inl x \<Rightarrow> Inl x
      | Inr r \<Rightarrow>
          (case score_videos e rest of
             Inl x \<Rightarrow> Inl x
           | Inr videos_with_scores \<Rightarrow>
               Inr (case r of
                      None \<Rightarrow> videos_with_scores
                    | Some v \<Rightarrow> v # videos_with_scores)))"

subsection \<open>Steps 4 to 6: sorting, truncation, formatting\<close>

text \<open>
  \<^verbatim>\<open>list.sort(key=..., reverse=True)\<close> is a stable sort by descending key: the stable
  insertion sort of the library, on the negated score.
\<close>

definition sort_by_score :: "scored_video list \<Rightarrow> scored_video list" where
  "sort_by_score videos_with_scores = sort_key (\<lambda>x. - customScore x) videos_with_scores"

text \<open>The slice \<^verbatim>\<open>xs[:n]\<close>; a negative \<open>n\<close> counts from the end.\<close>

definition slice_to :: "int \<Rightarrow> 'a list \<Rightarrow> 'a list" where
  "slice_to n xs = (if 0 \<le> n then take (nat n) xs else take (length xs - nat (- n)) xs)"

text \<open>
  \<^verbatim>\<open>VideoItem(**video)\<close>: the score is not a field of the model and is dropped; the
  validation of the model can fail on the URL.
\<close>

definition to_VideoItem :: "scored_video \<Rightarrow> VideoItem" where
  "to_VideoItem v =
     \<lparr>video_id = video_id v, url = url v, title = title v, channelTitle = channelTitle v,
      publishedAt = publishedAt v, description = description v, viewCount = viewCount v,
      likeCount = likeCount v\<rparr>"

fun format_results :: "env \<Rightarrow> scored_video list \<Rightarrow> py_exception + VideoItem list" where
  "format_results e [] = Inr []"
| "format_results e (video # rest) =
     (if http_url_valid e (url video)
      then (case format_results e rest of
              Inl x \<Rightarrow> Inl x
            | Inr results \<Rightarrow> Inr (to_VideoItem video # results))
      else Inl ValidationError)"

subsection \<open>The handler\<close>

text \<open>
  The \<^verbatim>\<open>try\<close> block of lines 124 to 203: its result, or the exception it raised, and
  the outbound calls made.
\<close>

definition try_block ::
  "env \<Rightarrow> string \<Rightarrow> int \<Rightarrow> (py_exception + VideoItem list) \<times> outbound list" where
  "try_block e query max_results =
     (case search_execute e query INITIAL_FETCH_COUNT of
        Inl x \<Rightarrow> (Inl x, [SearchCall query INITIAL_FETCH_COUNT])
      | Inr search_response \<Rightarrow>
          (case collect_video_ids (get_search_items search_response) of
             Inl x \<Rightarrow> (Inl x, [SearchCall query INITIAL_FETCH_COUNT])
           | Inr video_ids \<Rightarrow>
               if video_ids = [] then (Inr [], [SearchCall query INITIAL_FETCH_COUNT])
               else (case fetch_details (videos_execute e) video_ids 0 []
                            [SearchCall query INITIAL_FETCH_COUNT] of
                       (Inl x, calls) \<Rightarrow> (Inl x, calls)
                     | (Inr detailed_videos, calls) \<Rightarrow>
                         (case score_videos e detailed_videos of
                            Inl x \<Rightarrow> (Inl x, calls)
                          | Inr videos_with_scores \<Rightarrow>
                              (format_results e
                                 (slice_to max_results (sort_by_score videos_with_scores)),
                               calls)))))"

text \<open>
  The handler, lines 113 to 213: \<^verbatim>\<open>HttpError\<close> keeps the status of the client's
  response, every other exception becomes status 500.
\<close>

definition search_videos_custom_score ::
  "env \<Rightarrow> string \<Rightarrow> int \<Rightarrow> (failure + VideoItem list) \<times> outbound list" where
  "search_videos_custom_score e query max_results =
     (case get_youtube_service e of
        Inl f \<Rightarrow> (Inl f, [])
      | Inr u \<Rightarrow>
          (case try_block e query max_results of
             (Inr results, calls) \<Rightarrow> (Inr results, calls)
           | (Inl (HttpError status), calls) \<Rightarrow> (Inl (HTTPException status), calls)
           | (Inl x, calls) \<Rightarrow> (Inl (HTTPException 500), calls)))"

text \<open>
  The route declaration, lines 112 to 116: \<^verbatim>\<open>query\<close> is required (\<^verbatim>\<open>Query(...)\<close>, with
  no constraint on its length), \<^verbatim>\<open>max_results\<close> defaults to 10 and is checked against
  \<^verbatim>\<open>ge=1\<close> and \<^verbatim>\<open>le=INITIAL_FETCH_COUNT\<close>. The framework checks both before it calls the
  handler.
\<close>

record request =
  query_param :: "string option"
  max_results_param :: "int option"

definition search_route :: "env \<Rightarrow> request \<Rightarrow> (failure + VideoItem list) \<times> outbound list" where
  "search_route e req =
     (case query_param req of
        None \<Rightarrow> (Inl RequestValidationError, [])
      | Some query \<Rightarrow>
          (let max_results = (case max_results_param req of None \<Rightarrow> 10 | Some n \<Rightarrow> n)
           in if max_results < 1 \<or> INITIAL_FETCH_COUNT < max_results
              then (Inl RequestValidationError, [])
              else search_videos_custom_score e query max_results))"

subsection \<open>The wording of the specification\<close>

text \<open>
  The ratio as the specification words it: the quotient when both counts are present and
  the view count is positive, the constant 0.01 when likes are present and positive
  while views are absent or zero, and 0 otherwise.
\<close>

fun spec_ratio :: "int option \<Rightarrow> int option \<Rightarrow> real" where
  "spec_ratio (Some v) (Some l) =
     (if 0 < v then real_of_int l / real_of_int v
      else if 0 < l \<and> v = 0 then 1 / 100
      else 0)"
| "spec_ratio None (Some l) = (if 0 < l then 1 / 100 else 0)"
| "spec_ratio view_count None = 0"

text \<open>The quotient of the two counts, where the score divides, is a finite double.\<close>

fun quotient_in_range :: "int option \<Rightarrow> int option \<Rightarrow> bool" where
  "quotient_in_range (Some v) (Some l) =
     (v \<le> 0 \<or> \<bar>real_of_int l / real_of_int v\<bar> < DBL_OVERFLOW)"
| "quotient_in_range None like_count = True"
| "quotient_in_range view_count None = True"


text \<open>
  The date library answers with a timestamp in the range of the doubles, or fails by one
  of the two exceptions the score catches.
\<close>

definition timestamp_ok :: "py_exception + real \<Rightarrow> bool" where
  "timestamp_ok r =
     (case r of
        Inl x \<Rightarrow> x = ValueError \<or> x = TypeError
      | Inr ts \<Rightarrow> \<bar>ts\<bar> < DBL_OVERFLOW)"

text \<open>An entry of the details response has a publication date (a non-empty string).\<close>

definition has_publishedAt :: "video_json \<Rightarrow> bool" where
  "has_publishedAt video_data =
     (case sn_publishedAt (get_snippet video_data) of
        None \<Rightarrow> False
      | Some published_at \<Rightarrow> published_at \<noteq> [])"

text \<open>
  The intermediate values of a request, named after the variables of the handler: the
  requested count, the identifiers found by the search (the candidate pool), the
  entries fetched for them, and the scored entries (the survivors). Each is empty
  where the step that computes it raised.
\<close>

definition requested :: "request \<Rightarrow> int" where
  "requested req = (case max_results_param req of None \<Rightarrow> 10 | Some n \<Rightarrow> n)"

definition candidate_pool :: "env \<Rightarrow> string \<Rightarrow> string list" where
  "candidate_pool e query =
     (case search_execute e query INITIAL_FETCH_COUNT of
        Inl x \<Rightarrow> []
      | Inr search_response \<Rightarrow>
          (case collect_video_ids (get_search_items search_response) of
             Inl x \<Rightarrow> []
           | Inr video_ids \<Rightarrow> video_ids))"

definition fetched_details :: "env \<Rightarrow> string \<Rightarrow> video_json list" where
  "fetched_details e query =
     (case fst (fetch_details (videos_execute e) (candidate_pool e query) 0 [] []) of
        Inl x \<Rightarrow> []
      | Inr detailed \<Rightarrow> detailed)"

definition survivors :: "env \<Rightarrow> string \<Rightarrow> scored_video list" where
  "survivors e query =
     (case score_videos e (fetched_details e query) of
        Inl x \<Rightarrow> []
      | Inr videos_with_scores \<Rightarrow> videos_with_scores)"

text \<open>
  The details capability answers each batch of a request with entries whose identifiers
  are among those of the batch.
\<close>

definition details_as_requested :: "env \<Rightarrow> string \<Rightarrow> bool" where
  "details_as_requested e query =
     (\<forall>b \<in> set (batches (candidate_pool e query) 0).
        case videos_execute e (join_comma b) of
          Inl x \<Rightarrow> True
        | Inr response \<Rightarrow> \<forall>d \<in> set (get_videos_items response). v_id d \<in> Some ` set b)"



subsection \<open>A frozen environment for the examples\<close>

text \<open>
  The answers of the client for a few queries, after the end-to-end scenario of the
  specification: \<open>cats\<close> finds A, B and C, and the details know A and B only.
  \<open>dogs\<close> finds D, whose details have no date, and E, whose date does not parse.
  \<open>ties\<close> finds H, I and J, where H and J score the same. \<open>birds\<close> finds F, and the
  details answer with an entry G that was not asked for. Every other query finds nothing.
\<close>

definition example_timestamp :: "string \<Rightarrow> py_exception + real" where
  "example_timestamp s =
     (if s = ''2024-01-01T00:00:00+00:00'' then Inr 1704067200
      else if s = ''2025-01-01T00:00:00+00:00'' then Inr 1735689600
      else Inl ValueError)"

definition example_int :: "string \<Rightarrow> py_exception + int" where
  "example_int s =
     (if s = ''1000'' then Inr 1000
      else if s = ''100'' then Inr 100
      else if s = ''50'' then Inr 50
      else Inl ValueError)"

definition video_result :: "string \<Rightarrow> search_result" where
  "video_result v = \<lparr>result_id = Some \<lparr>kind = Some ''youtube#video'', videoId = Some v\<rparr>\<rparr>"

definition video_details :: "string \<Rightarrow> string option \<Rightarrow> string \<Rightarrow> string \<Rightarrow> video_json" where
  "video_details v date views likes =
     \<lparr>v_id = Some v,
      v_snippet = Some \<lparr>sn_publishedAt = date, sn_title = Some (''Video '' @ v),
                        sn_channelTitle = Some ''Channel'', sn_description = None\<rparr>,
      v_statistics = Some \<lparr>st_viewCount = Some views, st_likeCount = Some likes\<rparr>\<rparr>"

definition example_search :: "string \<Rightarrow> int \<Rightarrow> py_exception + search_response" where
  "example_search q n =
     (if q = ''cats''
      then Inr \<lparr>search_items = Some [video_result ''A'', video_result ''B'', video_result ''C'']\<rparr>
      else if q = ''dogs''
      then Inr \<lparr>search_items = Some [video_result ''D'', video_result ''E'']\<rparr>
      else if q = ''ties''
      then Inr \<lparr>search_items = Some [video_result ''H'', video_result ''I'', video_result ''J'']\<rparr>
      else if q = ''birds''
      then Inr \<lparr>search_items = Some [video_result ''F'']\<rparr>
      else Inr \<lparr>search_items = Some []\<rparr>)"

definition example_videos :: "string \<Rightarrow> py_exception + videos_response" where
  "example_videos ids =
     (if ids = ''A,B,C''
      then Inr \<lparr>videos_items = Some
             [video_details ''A'' (Some ''2024-01-01T00:00:00Z'') ''1000'' ''100'',
              video_details ''B'' (Some ''2025-01-01T00:00:00Z'') ''100'' ''50'']\<rparr>
      else if ids = ''D,E''
      then Inr \<lparr>videos_items = Some
             [video_details ''D'' None ''1000'' ''100'',
              video_details ''E'' (Some ''yesterday'') ''100'' ''50'']\<rparr>
      else if ids = ''H,I,J''
      then Inr \<lparr>videos_items = Some
             [video_details ''H'' (Some ''2024-01-01T00:00:00Z'') ''100'' ''50'',
              video_details ''I'' (Some ''2025-01-01T00:00:00Z'') ''1000'' ''100'',
              video_details ''J'' (Some ''2024-01-01T00:00:00Z'') ''100'' ''50'']\<rparr>
      else if ids = ''F''
      then Inr \<lparr>videos_items = Some
             [video_details ''G'' (Some ''2024-01-01T00:00:00Z'') ''100'' ''50'']\<rparr>
      else Inl (HttpError 404))"

definition example_env :: env where
  "example_env =
     \<lparr>YOUTUBE_API_KEY = Some ''key'',
      build_error = None,
      search_execute = example_search,
      videos_execute = example_videos,
      fromisoformat_timestamp = example_timestamp,
      py_int = example_int,
      http_url_valid = (\<lambda>u. True)\<rparr>"

text \<open>The scored entry expected for an entry of the examples.\<close>

definition example_scored :: "string \<Rightarrow> string \<Rightarrow> int \<Rightarrow> int \<Rightarrow> real \<Rightarrow> scored_video" where
  "example_scored v date views likes score =
     \<lparr>video_id = v, url = ''https://www.youtube.com/watch?v='' @ v, title = ''Video '' @ v,
      channelTitle = ''Channel'', publishedAt = date, description = None,
      viewCount = Some views, likeCount = Some likes, customScore = score\<rparr>"

definition example_request :: "string \<Rightarrow> request" where
  "example_request q = \<lparr>query_param = Some q, max_results_param = None\<rparr>"


section \<open>The score\<close>

subsection \<open>The ratio component\<close>

lemma DBL_OVERFLOW_gt_1: "1 < DBL_OVERFLOW"
proof -
  have "(2::real) ^ 1024 = 2 ^ 54 * 2 ^ 970"
    by (simp flip: power_add)
  moreover have "(1::real) \<le> 2 ^ 970"
    by (rule one_le_power) simp
  ultimately have
    "2 ^ 54 - 1 \<le> (2 ^ 54 - 1) * (2::real) ^ 970 \<and> DBL_OVERFLOW = (2 ^ 54 - 1) * 2 ^ 970"
    by (simp add: DBL_OVERFLOW_def algebra_simps)
  then show ?thesis by simp
qed

text \<open>
  Where the quotient is a finite double, the code's ratio is the specification's: the
  code also asks for a non-zero like count before it divides, and a zero like count
  gives the quotient 0 either way.
\<close>

lemma ratio_component_spec:
  "quotient_in_range view_count like_count \<Longrightarrow>
   ratio_component view_count like_count = Inr (spec_ratio view_count like_count)"
  by (cases view_count; cases like_count) (auto simp: is_true_def py_truediv_def)


lemma spec_ratio_bound:
  "quotient_in_range view_count like_count \<Longrightarrow>
   \<bar>spec_ratio view_count like_count\<bar> < DBL_OVERFLOW"
  using DBL_OVERFLOW_gt_1 by (cases view_count; cases like_count) auto

subsection \<open>A date that parses\<close>




subsection \<open>A date that does not parse\<close>




subsection \<open>The score is a finite number\<close>

text \<open>
  C3, as amended. For all counts, absent or zero included, whose quotient, where the
  score divides, is a finite double, and every date on which the library either fails
  with \<open>ValueError\<close> or \<open>TypeError\<close> or answers with a timestamp in the range of the
  doubles, \<open>calculate_score\<close> returns a number, and its magnitude is below the bound at
  which a double overflows. As stated, for all inputs, the claim fails: a like count of
  \<open>3 * 2^1024\<close> on 3 views makes the division raise \<open>OverflowError\<close>.
\<close>

theorem calculate_score_finite:
  assumes "quotient_in_range view_count like_count"
    and "timestamp_ok (iso_timestamp (replace_Z published_at_str))"
  shows "\<exists>r. calculate_score iso_timestamp view_count like_count published_at_str = Inr r \<and>
             \<bar>r\<bar> < DBL_OVERFLOW"
proof -
  let ?q = "spec_ratio view_count like_count"
  have q: "\<bar>?q\<bar> < DBL_OVERFLOW"
    using assms(1) by (rule spec_ratio_bound)
  show ?thesis
  proof (cases "iso_timestamp (replace_Z published_at_str)")
    case (Inl x)
    with assms(2) have "x = ValueError \<or> x = TypeError"
      by (simp add: timestamp_ok_def)
    with Inl have "calculate_score iso_timestamp view_count like_count published_at_str =
        Inr (RATIO_WEIGHT * ?q)"
      by (auto simp: calculate_score_def ratio_component_spec [OF assms(1)])
    moreover have "\<bar>RATIO_WEIGHT * ?q\<bar> < DBL_OVERFLOW"
      using q by (simp add: RATIO_WEIGHT_def abs_mult)
    ultimately show ?thesis by simp
  next
    case (Inr ts)
    with assms(2) have t: "\<bar>ts\<bar> < DBL_OVERFLOW"
      by (simp add: timestamp_ok_def)
    from Inr have "calculate_score iso_timestamp view_count like_count published_at_str =
        Inr (RATIO_WEIGHT * ?q + RECENCY_WEIGHT * (ts / RECENCY_SCALE_FACTOR))"
      by (simp add: calculate_score_def ratio_component_spec [OF assms(1)])
    moreover have
      "\<bar>RATIO_WEIGHT * ?q + RECENCY_WEIGHT * (ts / RECENCY_SCALE_FACTOR)\<bar> < DBL_OVERFLOW"
      using q t
      by (simp add: RATIO_WEIGHT_def RECENCY_WEIGHT_def RECENCY_SCALE_FACTOR_def abs_if
          split: if_splits)
    ultimately show ?thesis by simp
  qed
qed

theorem calculate_score_finite_witness:
  "quotient_in_range None (Some 7) \<and>
   timestamp_ok (example_timestamp (replace_Z ''2025-01-01T00:00:00Z'')) \<and>
   (\<exists>r. calculate_score example_timestamp None (Some 7) ''2025-01-01T00:00:00Z'' = Inr r \<and>
        \<bar>r\<bar> < DBL_OVERFLOW)"
proof -
  have q: "quotient_in_range None (Some 7)"
    by simp
  have p: "timestamp_ok (example_timestamp (replace_Z ''2025-01-01T00:00:00Z''))"
    by (simp add: example_timestamp_def timestamp_ok_def DBL_OVERFLOW_def)
  show ?thesis
    using p q
      calculate_score_finite [of None "Some 7" example_timestamp "''2025-01-01T00:00:00Z''"]
    by simp
qed

theorem calculate_score_finite_counterexample:
  "calculate_score example_timestamp (Some 3) (Some (3 * 2 ^ 1024)) ''2025-01-01T00:00:00Z'' =
     Inl OverflowError"
  by (simp add: calculate_score_def is_true_def py_truediv_def DBL_OVERFLOW_def)

section \<open>The pipeline\<close>

subsection \<open>Batches and the loop that fetches them\<close>

lemma concat_batches: "concat (batches video_ids i) = drop i video_ids"
proof (induction video_ids i rule: batches.induct)
  case (1 video_ids i)
  show ?case
  proof (cases "i < length video_ids")
    case True
    then have "batches video_ids i = take 50 (drop i video_ids) # batches video_ids (i + 50)"
      by (subst batches.simps) simp
    then have "concat (batches video_ids i) =
        take 50 (drop i video_ids) @ drop (i + 50) video_ids"
      using "1.IH" [OF True] by simp
    also have "\<dots> = drop i video_ids"
      by (metis append_take_drop_id drop_drop add.commute)
    finally show ?thesis .
  next
    case False
    then show ?thesis by (subst batches.simps) simp
  qed
qed

lemma batches_bounds: "b \<in> set (batches video_ids i) \<Longrightarrow> b \<noteq> [] \<and> length b \<le> 50"
proof (induction video_ids i rule: batches.induct)
  case (1 video_ids i)
  show ?case
  proof (cases "i < length video_ids")
    case True
    with "1.prems" have "b = take 50 (drop i video_ids) \<or> b \<in> set (batches video_ids (i + 50))"
      by (subst (asm) batches.simps) simp
    then show ?thesis
      using True "1.IH" by auto
  next
    case False
    with "1.prems" show ?thesis by (subst (asm) batches.simps) simp
  qed
qed

lemma fetch_details_calls:
  "fetch_details exec video_ids i detailed_videos calls = (r, calls') \<Longrightarrow>
   \<exists>bs. prefix bs (batches video_ids i) \<and>
        calls' = calls @ map (\<lambda>b. VideosCall (join_comma b)) bs \<and>
        (\<forall>x. r = Inr x \<longrightarrow> bs = batches video_ids i)"
proof (induction exec video_ids i detailed_videos calls rule: fetch_details.induct)
  case (1 exec video_ids i detailed_videos calls)
  let ?b = "take 50 (drop i video_ids)"
  show ?case
  proof (cases "i < length video_ids")
    case False
    with "1.prems" have "calls' = calls" "batches video_ids i = []"
      by (simp_all add: fetch_details.simps batches.simps)
    then show ?thesis by simp
  next
    case True
    then have bs: "batches video_ids i = ?b # batches video_ids (i + 50)"
      by (subst batches.simps) simp
    show ?thesis
    proof (cases "exec (join_comma ?b)")
      case (Inl x)
      with True "1.prems" have "r = Inl x" "calls' = calls @ [VideosCall (join_comma ?b)]"
        by (simp_all add: fetch_details.simps)
      then have "prefix [?b] (batches video_ids i) \<and>
          calls' = calls @ map (\<lambda>b. VideosCall (join_comma b)) [?b] \<and>
          (\<forall>x. r = Inr x \<longrightarrow> [?b] = batches video_ids i)"
        using bs by simp
      then show ?thesis by blast
    next
      case (Inr resp)
      with True "1.prems" have
        "fetch_details exec video_ids (i + 50) (detailed_videos @ get_videos_items resp)
           (calls @ [VideosCall (join_comma ?b)]) = (r, calls')"
        by (simp add: fetch_details.simps [of exec video_ids i])
      from "1.IH" [OF True Inr this] obtain bs' where
        "prefix bs' (batches video_ids (i + 50))"
        "calls' = (calls @ [VideosCall (join_comma ?b)]) @ map (\<lambda>b. VideosCall (join_comma b)) bs'"
        "\<forall>x. r = Inr x \<longrightarrow> bs' = batches video_ids (i + 50)"
        by blast
      then have "prefix (?b # bs') (batches video_ids i) \<and>
          calls' = calls @ map (\<lambda>b. VideosCall (join_comma b)) (?b # bs') \<and>
          (\<forall>x. r = Inr x \<longrightarrow> ?b # bs' = batches video_ids i)"
        using bs by simp
      then show ?thesis by blast
    qed
  qed
qed

text \<open>Every entry fetched comes from the answer to one batch.\<close>

lemma fetch_details_items:
  "fetch_details exec video_ids i detailed_videos calls = (Inr detailed, calls') \<Longrightarrow>
   \<exists>new. detailed = detailed_videos @ new \<and>
     (\<forall>x \<in> set new. \<exists>b \<in> set (batches video_ids i). \<exists>resp.
         exec (join_comma b) = Inr resp \<and> x \<in> set (get_videos_items resp))"
proof (induction exec video_ids i detailed_videos calls rule: fetch_details.induct)
  case (1 exec video_ids i detailed_videos calls)
  let ?b = "take 50 (drop i video_ids)"
  show ?case
  proof (cases "i < length video_ids")
    case False
    with "1.prems" have "detailed = detailed_videos"
      by (simp add: fetch_details.simps)
    then show ?thesis by simp
  next
    case True
    then have bs: "batches video_ids i = ?b # batches video_ids (i + 50)"
      by (subst batches.simps) simp
    show ?thesis
    proof (cases "exec (join_comma ?b)")
      case (Inl x)
      with True "1.prems" show ?thesis
        by (simp add: fetch_details.simps)
    next
      case (Inr resp)
      with True "1.prems" have
        "fetch_details exec video_ids (i + 50) (detailed_videos @ get_videos_items resp)
           (calls @ [VideosCall (join_comma ?b)]) = (Inr detailed, calls')"
        by (simp add: fetch_details.simps [of exec video_ids i])
      from "1.IH" [OF True Inr this] obtain new where new:
        "detailed = (detailed_videos @ get_videos_items resp) @ new"
        "\<forall>x \<in> set new. \<exists>b \<in> set (batches video_ids (i + 50)). \<exists>resp.
            exec (join_comma b) = Inr resp \<and> x \<in> set (get_videos_items resp)"
        by blast
      have "detailed = detailed_videos @ (get_videos_items resp @ new)"
        using new(1) by simp
      moreover have "\<forall>x \<in> set (get_videos_items resp @ new). \<exists>b \<in> set (batches video_ids i). \<exists>resp.
            exec (join_comma b) = Inr resp \<and> x \<in> set (get_videos_items resp)"
        using new(2) Inr bs by auto
      ultimately show ?thesis by blast
    qed
  qed
qed

text \<open>The calls recorded so far do not influence what is fetched.\<close>

lemma fetch_details_fst:
  "fst (fetch_details exec video_ids i detailed_videos calls) =
   fst (fetch_details exec video_ids i detailed_videos calls')"
proof (induction exec video_ids i detailed_videos calls arbitrary: calls' rule: fetch_details.induct)
  case (1 exec video_ids i detailed_videos calls)
  show ?case
  proof (cases "i < length video_ids")
    case False
    then show ?thesis by (simp add: fetch_details.simps)
  next
    case True
    show ?thesis
    proof (cases "exec (join_comma (take 50 (drop i video_ids)))")
      case (Inl x)
      with True show ?thesis by (simp add: fetch_details.simps)
    next
      case (Inr resp)
      with True "1.IH" [OF True Inr] show ?thesis
        by (simp add: fetch_details.simps [of exec video_ids i])
    qed
  qed
qed


subsection \<open>The scoring loop\<close>

lemma score_video_Some:
  "score_video e video_data = Inr (Some v) \<Longrightarrow>
   v_id video_data = Some (video_id v) \<and> has_publishedAt video_data \<and>
   sn_publishedAt (get_snippet video_data) = Some (publishedAt v) \<and> publishedAt v \<noteq> [] \<and>
   url v = ''https://www.youtube.com/watch?v='' @ video_id v"
  by (auto simp: score_video_def has_publishedAt_def split: option.splits sum.splits if_splits)

lemma score_video_None:
  "score_video e video_data = Inr None \<Longrightarrow> \<not> has_publishedAt video_data"
  by (auto simp: score_video_def has_publishedAt_def split: option.splits sum.splits if_splits)

lemma score_video_no_date:
  "\<not> has_publishedAt video_data \<Longrightarrow> score_video e video_data \<noteq> Inr (Some v)"
  using score_video_Some by blast

lemma score_videos_members:
  "score_videos e detailed = Inr scored \<Longrightarrow>
   (\<forall>v \<in> set scored. \<exists>d \<in> set detailed. score_video e d = Inr (Some v)) \<and>
   (\<forall>d \<in> set detailed. score_video e d = Inr None \<or> (\<exists>v \<in> set scored. score_video e d = Inr (Some v)))"
proof (induction detailed arbitrary: scored)
  case Nil
  then show ?case by simp
next
  case (Cons d ds)
  then show ?case
    by (fastforce split: sum.splits option.splits)
qed

lemma score_videos_length:
  "score_videos e detailed = Inr scored \<Longrightarrow> length scored \<le> length detailed"
  by (induction detailed arbitrary: scored) (fastforce split: sum.splits option.splits)+

lemma score_videos_filter:
  "score_videos e detailed = Inr scored \<Longrightarrow>
   score_videos e (filter has_publishedAt detailed) = Inr scored"
proof (induction detailed arbitrary: scored)
  case Nil
  then show ?case by simp
next
  case (Cons d ds)
  from Cons.prems obtain r rest where r: "score_video e d = Inr r"
    and rest: "score_videos e ds = Inr rest"
    and scored: "scored = (case r of None \<Rightarrow> rest | Some v \<Rightarrow> v # rest)"
    by (auto split: sum.splits)
  have IH: "score_videos e (filter has_publishedAt ds) = Inr rest"
    using Cons.IH rest by simp
  show ?case
  proof (cases r)
    case None
    with r have "\<not> has_publishedAt d" by (simp add: score_video_None)
    with IH scored None show ?thesis by simp
  next
    case (Some v)
    with r have "has_publishedAt d" using score_video_Some by blast
    with IH scored Some r show ?thesis by simp
  qed
qed

subsection \<open>The steps of a successful request\<close>

lemma format_results_map:
  "format_results e videos = Inr results \<Longrightarrow> results = map to_VideoItem videos"
  by (induction videos arbitrary: results) (auto split: if_splits sum.splits)

lemma try_block_Inr:
  assumes "try_block e query max_results = (Inr results, calls)"
  shows "format_results e (slice_to max_results (sort_by_score (survivors e query))) = Inr results \<and>
         score_videos e (fetched_details e query) = Inr (survivors e query) \<and>
         fst (fetch_details (videos_execute e) (candidate_pool e query) 0 [] []) = Inr (fetched_details e query)"
proof -
  from assms obtain sr where sr: "search_execute e query INITIAL_FETCH_COUNT = Inr sr"
    by (auto simp: try_block_def split: sum.splits)
  from assms sr obtain video_ids where ids: "collect_video_ids (get_search_items sr) = Inr video_ids"
    by (auto simp: try_block_def split: sum.splits)
  have pool: "candidate_pool e query = video_ids"
    using sr ids by (simp add: candidate_pool_def)
  show ?thesis
  proof (cases "video_ids = []")
    case True
    then have "fetched_details e query = []"
      using pool by (simp add: fetched_details_def fetch_details.simps)
    moreover from this have "survivors e query = []"
      by (simp add: survivors_def)
    moreover have "results = []"
      using assms sr ids True by (simp add: try_block_def)
    ultimately show ?thesis
      using pool True by (simp add: sort_by_score_def slice_to_def fetch_details.simps)
  next
    case False
    obtain r calls' where f: "fetch_details (videos_execute e) video_ids 0 []
        [SearchCall query INITIAL_FETCH_COUNT] = (r, calls')"
      by (cases "fetch_details (videos_execute e) video_ids 0 []
        [SearchCall query INITIAL_FETCH_COUNT]")
    with assms sr ids False obtain detailed where d: "r = Inr detailed"
      by (cases r) (auto simp: try_block_def)
    have "fst (fetch_details (videos_execute e) video_ids 0 [] []) = Inr detailed"
      using f d fetch_details_fst [of "videos_execute e" video_ids 0 "[]" "[]"
          "[SearchCall query INITIAL_FETCH_COUNT]"] by simp
    then have det: "fetched_details e query = detailed"
      and fd: "fst (fetch_details (videos_execute e) (candidate_pool e query) 0 [] []) = Inr detailed"
      using pool by (simp_all add: fetched_details_def)
    from assms sr ids False f d obtain scored where s: "score_videos e detailed = Inr scored"
      by (cases "score_videos e detailed") (auto simp: try_block_def)
    then have sv: "survivors e query = scored"
      using det by (simp add: survivors_def)
    have "format_results e (slice_to max_results (sort_by_score scored)) = Inr results"
      using assms sr ids False f d s by (simp add: try_block_def)
    then show ?thesis
      using sv det s fd by simp
  qed
qed

lemma search_route_Inr:
  assumes "search_route e req = (Inr results, calls)"
  shows "\<exists>query. query_param req = Some query \<and> 1 \<le> requested req \<and>
           requested req \<le> INITIAL_FETCH_COUNT \<and>
           try_block e query (requested req) = (Inr results, calls)"
proof -
  from assms obtain query where q: "query_param req = Some query"
    by (cases "query_param req") (auto simp: search_route_def)
  from assms q have range: "1 \<le> requested req \<and> requested req \<le> INITIAL_FETCH_COUNT"
    by (auto simp: search_route_def requested_def Let_def split: if_splits option.splits)
  from assms q range have
    "search_videos_custom_score e query (requested req) = (Inr results, calls)"
    by (auto simp: search_route_def requested_def Let_def split: if_splits option.splits)
  then have "try_block e query (requested req) = (Inr results, calls)"
    by (auto simp: search_videos_custom_score_def split: sum.splits prod.splits py_exception.splits)
  with q range show ?thesis by blast
qed

subsection \<open>Sorting and truncation\<close>

lemma slice_to_take: "\<exists>m. slice_to n xs = take m xs"
  by (auto simp: slice_to_def)

lemma slice_to_nonneg: "0 \<le> n \<Longrightarrow> slice_to n xs = take (nat n) xs"
  by (simp add: slice_to_def)

lemma sort_by_score_descending:
  "sorted_wrt (\<lambda>a b. customScore b \<le> customScore a) (sort_by_score videos_with_scores)"
proof -
  have "sorted (map (\<lambda>x. - customScore x) (sort_by_score videos_with_scores))"
    by (simp add: sort_by_score_def)
  then show ?thesis
    by (simp add: sorted_map)
qed

subsection \<open>What a successful request returns\<close>

lemma results_of_route:
  assumes "search_route e req = (Inr results, calls)" and "query_param req = Some query"
  shows "results = map to_VideoItem (take (nat (requested req)) (sort_by_score (survivors e query)))"
    and "1 \<le> requested req" and "requested req \<le> INITIAL_FETCH_COUNT"
    and "score_videos e (fetched_details e query) = Inr (survivors e query)"
    and "fst (fetch_details (videos_execute e) (candidate_pool e query) 0 [] []) =
           Inr (fetched_details e query)"
proof -
  from search_route_Inr [OF assms(1)] assms(2)
  have range: "1 \<le> requested req" "requested req \<le> INITIAL_FETCH_COUNT"
    and t: "try_block e query (requested req) = (Inr results, calls)"
    by auto
  from try_block_Inr [OF t] have
    f: "format_results e (slice_to (requested req) (sort_by_score (survivors e query))) = Inr results"
    and s: "score_videos e (fetched_details e query) = Inr (survivors e query)"
    and d: "fst (fetch_details (videos_execute e) (candidate_pool e query) 0 [] []) =
           Inr (fetched_details e query)"
    by auto
  from format_results_map [OF f] range(1)
  show "results = map to_VideoItem (take (nat (requested req)) (sort_by_score (survivors e query)))"
    by (simp add: slice_to_nonneg)
  show "1 \<le> requested req" "requested req \<le> INITIAL_FETCH_COUNT"
    by (rule range)+
  show "score_videos e (fetched_details e query) = Inr (survivors e query)" by (rule s)
  show "fst (fetch_details (videos_execute e) (candidate_pool e query) 0 [] []) =
           Inr (fetched_details e query)" by (rule d)
qed

lemma result_from_survivor:
  assumes "results = map to_VideoItem (take n (sort_by_score scored))" and "r \<in> set results"
  shows "\<exists>v \<in> set scored. r = to_VideoItem v"
proof -
  from assms obtain v where "v \<in> set (take n (sort_by_score scored))" "r = to_VideoItem v"
    by auto
  moreover from this have "v \<in> set scored"
    using set_take_subset [of n "sort_by_score scored"] by (auto simp: sort_by_score_def)
  ultimately show ?thesis by blast
qed

lemma result_from_details:
  assumes "search_route e req = (Inr results, calls)" and "query_param req = Some query"
    and "r \<in> set results"
  shows "\<exists>d \<in> set (fetched_details e query). \<exists>v \<in> set (survivors e query).
           score_video e d = Inr (Some v) \<and> r = to_VideoItem v"
proof -
  from result_from_survivor [OF results_of_route(1) [OF assms(1,2)] assms(3)]
  obtain v where v: "v \<in> set (survivors e query)" "r = to_VideoItem v"
    by blast
  from score_videos_members [OF results_of_route(4) [OF assms(1,2)]] v(1)
  obtain d where "d \<in> set (fetched_details e query)" "score_video e d = Inr (Some v)"
    by blast
  with v show ?thesis by blast
qed

lemma fetched_from_batch:
  assumes "fst (fetch_details (videos_execute e) (candidate_pool e query) 0 [] []) =
           Inr (fetched_details e query)"
    and "d \<in> set (fetched_details e query)"
  shows "\<exists>b \<in> set (batches (candidate_pool e query) 0). \<exists>response.
           videos_execute e (join_comma b) = Inr response \<and> d \<in> set (get_videos_items response)"
proof -
  obtain calls where "fetch_details (videos_execute e) (candidate_pool e query) 0 [] [] =
      (Inr (fetched_details e query), calls)"
    using assms(1) by (cases "fetch_details (videos_execute e) (candidate_pool e query) 0 [] []") simp
  from fetch_details_items [OF this] assms(2) show ?thesis
    by auto
qed

lemma batch_subset: "b \<in> set (batches video_ids 0) \<Longrightarrow> set b \<subseteq> set video_ids"
proof -
  assume "b \<in> set (batches video_ids 0)"
  then have "set b \<subseteq> set (concat (batches video_ids 0))"
    by auto
  then show ?thesis by (simp add: concat_batches)
qed

subsection \<open>The outbound calls of a request\<close>

lemma fetch_details_calls_subset:
  "set calls \<subseteq> set (snd (fetch_details exec video_ids i detailed_videos calls))"
proof -
  obtain r calls' where "fetch_details exec video_ids i detailed_videos calls = (r, calls')"
    by (cases "fetch_details exec video_ids i detailed_videos calls")
  from fetch_details_calls [OF this] obtain bs where
    "calls' = calls @ map (\<lambda>b. VideosCall (join_comma b)) bs"
    by blast
  with \<open>fetch_details exec video_ids i detailed_videos calls = (r, calls')\<close>
  show ?thesis by simp
qed




lemma search_videos_calls:
  assumes "get_youtube_service e = Inr u"
  shows "snd (search_videos_custom_score e query n) = snd (try_block e query n)"
proof -
  obtain r calls where t: "try_block e query n = (r, calls)"
    by (cases "try_block e query n")
  show ?thesis
  proof (cases r)
    case (Inr results)
    with t assms show ?thesis by (simp add: search_videos_custom_score_def)
  next
    case (Inl x)
    with t assms show ?thesis
      by (cases x) (simp_all add: search_videos_custom_score_def)
  qed
qed

lemma try_block_calls:
  "snd (try_block e query max_results) = [SearchCall query INITIAL_FETCH_COUNT] \<or>
   (\<exists>video_ids. snd (try_block e query max_results) =
      snd (fetch_details (videos_execute e) video_ids 0 [] [SearchCall query INITIAL_FETCH_COUNT]))"
proof (cases "search_execute e query INITIAL_FETCH_COUNT")
  case (Inl x)
  then show ?thesis by (simp add: try_block_def)
next
  case sr: (Inr search_response)
  show ?thesis
  proof (cases "collect_video_ids (get_search_items search_response)")
    case (Inl x)
    with sr show ?thesis by (simp add: try_block_def)
  next
    case ids: (Inr video_ids)
    show ?thesis
    proof (cases "video_ids = []")
      case True
      with sr ids show ?thesis by (simp add: try_block_def)
    next
      case False
      obtain r calls where f: "fetch_details (videos_execute e) video_ids 0 []
          [SearchCall query INITIAL_FETCH_COUNT] = (r, calls)"
        by (cases "fetch_details (videos_execute e) video_ids 0 []
          [SearchCall query INITIAL_FETCH_COUNT]")
      have "snd (try_block e query max_results) = calls"
      proof (cases r)
        case (Inl x)
        with sr ids False f show ?thesis by (simp add: try_block_def)
      next
        case (Inr detailed)
        with sr ids False f show ?thesis
          by (cases "score_videos e detailed") (simp_all add: try_block_def)
      qed
      with f have "snd (try_block e query max_results) =
          snd (fetch_details (videos_execute e) video_ids 0 []
            [SearchCall query INITIAL_FETCH_COUNT])"
        by simp
      then show ?thesis by blast
    qed
  qed
qed

lemma try_block_search_call:
  "SearchCall query INITIAL_FETCH_COUNT \<in> set (snd (try_block e query max_results))"
proof -
  let ?s = "SearchCall query INITIAL_FETCH_COUNT"
  from try_block_calls [of e query max_results] show ?thesis
  proof
    assume "snd (try_block e query max_results) = [?s]"
    then show ?thesis by simp
  next
    assume "\<exists>video_ids. snd (try_block e query max_results) =
      snd (fetch_details (videos_execute e) video_ids 0 [] [?s])"
    then obtain video_ids where "snd (try_block e query max_results) =
      snd (fetch_details (videos_execute e) video_ids 0 [] [?s])"
      by blast
    moreover have "set [?s] \<subseteq> set (snd (fetch_details (videos_execute e) video_ids 0 [] [?s]))"
      by (rule fetch_details_calls_subset)
    ultimately show ?thesis by simp
  qed
qed


subsection \<open>The examples, step by step\<close>

lemma example_env_fields:
  "YOUTUBE_API_KEY example_env = Some ''key''"
  "build_error example_env = None"
  "search_execute example_env = example_search"
  "videos_execute example_env = example_videos"
  "fromisoformat_timestamp example_env = example_timestamp"
  "py_int example_env = example_int"
  "http_url_valid example_env = (\<lambda>u. True)"
  by (simp_all add: example_env_def)

lemma example_service: "get_youtube_service example_env = Inr ()"
  by (simp add: get_youtube_service_def example_env_fields)

lemma try_block_steps:
  assumes "search_execute e query INITIAL_FETCH_COUNT = Inr sr"
    and "collect_video_ids (get_search_items sr) = Inr video_ids"
    and "video_ids \<noteq> []"
    and "fetch_details (videos_execute e) video_ids 0 [] [SearchCall query INITIAL_FETCH_COUNT] =
           (Inr detailed, calls)"
    and "score_videos e detailed = Inr scored"
    and "format_results e (slice_to n (sort_by_score scored)) = Inr results"
  shows "try_block e query n = (Inr results, calls)"
  using assms by (simp add: try_block_def)

lemma route_steps:
  assumes "get_youtube_service e = Inr ()"
    and "try_block e q 10 = (Inr results, calls)"
  shows "search_route e (example_request q) = (Inr results, calls)"
  using assms
  by (simp add: search_route_def example_request_def search_videos_custom_score_def
      INITIAL_FETCH_COUNT_def)

lemmas score_video_defs =
  score_video_def video_details_def get_snippet_def get_statistics_def int_or_none_def
  get_or_def example_env_fields example_int_def example_timestamp_def calculate_score_def
  is_true_def py_truediv_def DBL_OVERFLOW_def RATIO_WEIGHT_def RECENCY_WEIGHT_def
  RECENCY_SCALE_FACTOR_def example_scored_def

lemma score_A:
  "score_video example_env (video_details ''A'' (Some ''2024-01-01T00:00:00Z'') ''1000'' ''100'') =
     Inr (Some (example_scored ''A'' ''2024-01-01T00:00:00Z'' 1000 100 (1001271 / 7812500)))"
  by (simp add: score_video_defs)

lemma score_B:
  "score_video example_env (video_details ''B'' (Some ''2025-01-01T00:00:00Z'') ''100'' ''50'') =
     Inr (Some (example_scored ''B'' ''2025-01-01T00:00:00Z'' 100 50 (2886153 / 7812500)))"
  by (simp add: score_video_defs)

lemma score_D:
  "score_video example_env (video_details ''D'' None ''1000'' ''100'') = Inr None"
  by (simp add: score_video_defs)

lemma score_E:
  "score_video example_env (video_details ''E'' (Some ''yesterday'') ''100'' ''50'') =
     Inr (Some (example_scored ''E'' ''yesterday'' 100 50 (3 / 10)))"
  by (simp add: score_video_defs)

lemma score_G:
  "score_video example_env (video_details ''G'' (Some ''2024-01-01T00:00:00Z'') ''100'' ''50'') =
     Inr (Some (example_scored ''G'' ''2024-01-01T00:00:00Z'' 100 50 (2876271 / 7812500)))"
  by (simp add: score_video_defs)

lemma cats_pool: "candidate_pool example_env ''cats'' = [''A'', ''B'', ''C'']"
  by (simp add: candidate_pool_def example_env_fields example_search_def video_result_def
      get_search_items_def)

lemma cats_batches: "batches [''A'', ''B'', ''C''] 0 = [[''A'', ''B'', ''C'']]"
  by (simp add: batches.simps)

lemma cats_fetch:
  "fetch_details example_videos [''A'', ''B'', ''C''] 0 [] calls =
     (Inr [video_details ''A'' (Some ''2024-01-01T00:00:00Z'') ''1000'' ''100'',
           video_details ''B'' (Some ''2025-01-01T00:00:00Z'') ''100'' ''50''],
      calls @ [VideosCall ''A,B,C''])"
  by (simp add: fetch_details.simps get_videos_items_def example_videos_def)

lemma cats_details:
  "fetched_details example_env ''cats'' =
     [video_details ''A'' (Some ''2024-01-01T00:00:00Z'') ''1000'' ''100'',
      video_details ''B'' (Some ''2025-01-01T00:00:00Z'') ''100'' ''50'']"
  by (simp add: fetched_details_def cats_pool cats_fetch example_env_fields)

lemma cats_survivors:
  "survivors example_env ''cats'' =
     [example_scored ''A'' ''2024-01-01T00:00:00Z'' 1000 100 (1001271 / 7812500),
      example_scored ''B'' ''2025-01-01T00:00:00Z'' 100 50 (2886153 / 7812500)]"
  by (simp add: survivors_def cats_details score_A score_B)

lemma cats_sorted:
  "sort_by_score
     [example_scored ''A'' ''2024-01-01T00:00:00Z'' 1000 100 (1001271 / 7812500),
      example_scored ''B'' ''2025-01-01T00:00:00Z'' 100 50 (2886153 / 7812500)] =
     [example_scored ''B'' ''2025-01-01T00:00:00Z'' 100 50 (2886153 / 7812500),
      example_scored ''A'' ''2024-01-01T00:00:00Z'' 1000 100 (1001271 / 7812500)]"
  by (simp add: sort_by_score_def example_scored_def)

lemma cats_run:
  "search_route example_env (example_request ''cats'') =
     (Inr [to_VideoItem (example_scored ''B'' ''2025-01-01T00:00:00Z'' 100 50 (2886153 / 7812500)),
           to_VideoItem (example_scored ''A'' ''2024-01-01T00:00:00Z'' 1000 100 (1001271 / 7812500))],
      [SearchCall ''cats'' 50, VideosCall ''A,B,C''])"
proof (rule route_steps [OF example_service], rule try_block_steps)
  show "search_execute example_env ''cats'' INITIAL_FETCH_COUNT =
      Inr \<lparr>search_items = Some [video_result ''A'', video_result ''B'', video_result ''C'']\<rparr>"
    by (simp add: example_env_fields example_search_def)
  show "collect_video_ids (get_search_items
      \<lparr>search_items = Some [video_result ''A'', video_result ''B'', video_result ''C'']\<rparr>) =
      Inr [''A'', ''B'', ''C'']"
    by (simp add: get_search_items_def video_result_def)
  show "[''A'', ''B'', ''C''] \<noteq> []" by simp
  show "fetch_details (videos_execute example_env) [''A'', ''B'', ''C''] 0 []
      [SearchCall ''cats'' INITIAL_FETCH_COUNT] =
      (Inr [video_details ''A'' (Some ''2024-01-01T00:00:00Z'') ''1000'' ''100'',
            video_details ''B'' (Some ''2025-01-01T00:00:00Z'') ''100'' ''50''],
       [SearchCall ''cats'' 50, VideosCall ''A,B,C''])"
    by (simp add: example_env_fields cats_fetch INITIAL_FETCH_COUNT_def)
  show "score_videos example_env
      [video_details ''A'' (Some ''2024-01-01T00:00:00Z'') ''1000'' ''100'',
       video_details ''B'' (Some ''2025-01-01T00:00:00Z'') ''100'' ''50''] =
      Inr [example_scored ''A'' ''2024-01-01T00:00:00Z'' 1000 100 (1001271 / 7812500),
           example_scored ''B'' ''2025-01-01T00:00:00Z'' 100 50 (2886153 / 7812500)]"
    by (simp add: score_A score_B)
  show "format_results example_env (slice_to 10 (sort_by_score
      [example_scored ''A'' ''2024-01-01T00:00:00Z'' 1000 100 (1001271 / 7812500),
       example_scored ''B'' ''2025-01-01T00:00:00Z'' 100 50 (2886153 / 7812500)])) =
      Inr [to_VideoItem (example_scored ''B'' ''2025-01-01T00:00:00Z'' 100 50 (2886153 / 7812500)),
           to_VideoItem (example_scored ''A'' ''2024-01-01T00:00:00Z'' 1000 100 (1001271 / 7812500))]"
    by (simp add: cats_sorted slice_to_def example_env_fields)
qed


lemma dogs_pool: "candidate_pool example_env ''dogs'' = [''D'', ''E'']"
  by (simp add: candidate_pool_def example_env_fields example_search_def video_result_def
      get_search_items_def)

lemma dogs_fetch:
  "fetch_details example_videos [''D'', ''E''] 0 [] calls =
     (Inr [video_details ''D'' None ''1000'' ''100'',
           video_details ''E'' (Some ''yesterday'') ''100'' ''50''],
      calls @ [VideosCall ''D,E''])"
  by (simp add: fetch_details.simps get_videos_items_def example_videos_def)

lemma dogs_details:
  "fetched_details example_env ''dogs'' =
     [video_details ''D'' None ''1000'' ''100'',
      video_details ''E'' (Some ''yesterday'') ''100'' ''50'']"
  by (simp add: fetched_details_def dogs_pool dogs_fetch example_env_fields)

lemma dogs_survivors:
  "survivors example_env ''dogs'' = [example_scored ''E'' ''yesterday'' 100 50 (3 / 10)]"
  by (simp add: survivors_def dogs_details score_D score_E)

lemma dogs_run:
  "search_route example_env (example_request ''dogs'') =
     (Inr [to_VideoItem (example_scored ''E'' ''yesterday'' 100 50 (3 / 10))],
      [SearchCall ''dogs'' 50, VideosCall ''D,E''])"
proof (rule route_steps [OF example_service], rule try_block_steps)
  show "search_execute example_env ''dogs'' INITIAL_FETCH_COUNT =
      Inr \<lparr>search_items = Some [video_result ''D'', video_result ''E'']\<rparr>"
    by (simp add: example_env_fields example_search_def)
  show "collect_video_ids (get_search_items
      \<lparr>search_items = Some [video_result ''D'', video_result ''E'']\<rparr>) = Inr [''D'', ''E'']"
    by (simp add: get_search_items_def video_result_def)
  show "[''D'', ''E''] \<noteq> []" by simp
  show "fetch_details (videos_execute example_env) [''D'', ''E''] 0 []
      [SearchCall ''dogs'' INITIAL_FETCH_COUNT] =
      (Inr [video_details ''D'' None ''1000'' ''100'',
            video_details ''E'' (Some ''yesterday'') ''100'' ''50''],
       [SearchCall ''dogs'' 50, VideosCall ''D,E''])"
    by (simp add: example_env_fields dogs_fetch INITIAL_FETCH_COUNT_def)
  show "score_videos example_env
      [video_details ''D'' None ''1000'' ''100'',
       video_details ''E'' (Some ''yesterday'') ''100'' ''50''] =
      Inr [example_scored ''E'' ''yesterday'' 100 50 (3 / 10)]"
    by (simp add: score_D score_E)
  show "format_results example_env (slice_to 10 (sort_by_score
      [example_scored ''E'' ''yesterday'' 100 50 (3 / 10)])) =
      Inr [to_VideoItem (example_scored ''E'' ''yesterday'' 100 50 (3 / 10))]"
    by (simp add: sort_by_score_def slice_to_def example_env_fields)
qed

lemma birds_pool: "candidate_pool example_env ''birds'' = [''F'']"
  by (simp add: candidate_pool_def example_env_fields example_search_def video_result_def
      get_search_items_def)

lemma birds_run:
  "search_route example_env (example_request ''birds'') =
     (Inr [to_VideoItem (example_scored ''G'' ''2024-01-01T00:00:00Z'' 100 50 (2876271 / 7812500))],
      [SearchCall ''birds'' 50, VideosCall ''F''])"
proof (rule route_steps [OF example_service], rule try_block_steps)
  show "search_execute example_env ''birds'' INITIAL_FETCH_COUNT =
      Inr \<lparr>search_items = Some [video_result ''F'']\<rparr>"
    by (simp add: example_env_fields example_search_def)
  show "collect_video_ids (get_search_items \<lparr>search_items = Some [video_result ''F'']\<rparr>) =
      Inr [''F'']"
    by (simp add: get_search_items_def video_result_def)
  show "[''F''] \<noteq> []" by simp
  show "fetch_details (videos_execute example_env) [''F''] 0 []
      [SearchCall ''birds'' INITIAL_FETCH_COUNT] =
      (Inr [video_details ''G'' (Some ''2024-01-01T00:00:00Z'') ''100'' ''50''],
       [SearchCall ''birds'' 50, VideosCall ''F''])"
    by (simp add: example_env_fields fetch_details.simps get_videos_items_def example_videos_def
        INITIAL_FETCH_COUNT_def)
  show "score_videos example_env
      [video_details ''G'' (Some ''2024-01-01T00:00:00Z'') ''100'' ''50''] =
      Inr [example_scored ''G'' ''2024-01-01T00:00:00Z'' 100 50 (2876271 / 7812500)]"
    by (simp add: score_G)
  show "format_results example_env (slice_to 10 (sort_by_score
      [example_scored ''G'' ''2024-01-01T00:00:00Z'' 100 50 (2876271 / 7812500)])) =
      Inr [to_VideoItem (example_scored ''G'' ''2024-01-01T00:00:00Z'' 100 50 (2876271 / 7812500))]"
    by (simp add: sort_by_score_def slice_to_def example_env_fields)
qed

lemma empty_query_run:
  "search_route example_env (example_request []) = (Inr [], [SearchCall [] 50])"
  by (simp add: search_route_def example_request_def search_videos_custom_score_def
      example_service try_block_def example_env_fields example_search_def get_search_items_def
      INITIAL_FETCH_COUNT_def)

lemma cats_as_requested: "details_as_requested example_env ''cats''"
  by (simp add: details_as_requested_def cats_pool cats_batches example_env_fields
      example_videos_def get_videos_items_def video_details_def)

section \<open>The ranking\<close>

subsection \<open>Ties\<close>

text \<open>
  C4. The descending sort never reorders ties: for every score \<open>s\<close>, the scored entries
  of score \<open>s\<close> stand in the sorted list in the order they had before the sort, and
  those that are left after the truncation to the first \<open>max_results\<close> are a prefix of
  them. The relative order of any two entries of equal score is therefore the one of the
  sequence before the sort.
\<close>

theorem ties_keep_their_order:
  "filter (\<lambda>v. customScore v = s) (sort_by_score videos_with_scores) =
     filter (\<lambda>v. customScore v = s) videos_with_scores \<and>
   prefix (filter (\<lambda>v. customScore v = s) (slice_to max_results (sort_by_score videos_with_scores)))
     (filter (\<lambda>v. customScore v = s) videos_with_scores)"
proof -
  have stable: "filter (\<lambda>v. customScore v = s) (sort_by_score videos_with_scores) =
      filter (\<lambda>v. customScore v = s) videos_with_scores"
    using sort_key_stable [of "\<lambda>x. - customScore x" "- s" videos_with_scores]
    by (simp add: sort_by_score_def)
  obtain m where "slice_to max_results (sort_by_score videos_with_scores) =
      take m (sort_by_score videos_with_scores)"
    using slice_to_take by blast
  then have "prefix (filter (\<lambda>v. customScore v = s)
        (slice_to max_results (sort_by_score videos_with_scores)))
      (filter (\<lambda>v. customScore v = s) (sort_by_score videos_with_scores))"
    by (simp add: filter_mono_prefix take_is_prefix)
  with stable show ?thesis by simp
qed

theorem ties_keep_their_order_witness:
  "filter (\<lambda>v. customScore v = 2876271 / 7812500)
     (sort_by_score
        [example_scored ''H'' ''2024-01-01T00:00:00Z'' 100 50 (2876271 / 7812500),
         example_scored ''I'' ''2025-01-01T00:00:00Z'' 1000 100 (1011153 / 7812500),
         example_scored ''J'' ''2024-01-01T00:00:00Z'' 100 50 (2876271 / 7812500)]) =
     [example_scored ''H'' ''2024-01-01T00:00:00Z'' 100 50 (2876271 / 7812500),
      example_scored ''J'' ''2024-01-01T00:00:00Z'' 100 50 (2876271 / 7812500)]"
  using ties_keep_their_order [of "2876271 / 7812500"
      "[example_scored ''H'' ''2024-01-01T00:00:00Z'' 100 50 (2876271 / 7812500),
        example_scored ''I'' ''2025-01-01T00:00:00Z'' 1000 100 (1011153 / 7812500),
        example_scored ''J'' ''2024-01-01T00:00:00Z'' 100 50 (2876271 / 7812500)]"]
  by (simp add: example_scored_def)

subsection \<open>Size and origin of the output\<close>

text \<open>
  C5, as amended. A request that succeeds returns at most \<open>min(N, P, survivors)\<close> items,
  where \<open>N\<close> is the requested count and \<open>P\<close> the pool size 50; when no more than \<open>N\<close>
  entries survive, all of them are returned, sorted, and nothing else. Every item
  returned has the identifier of an entry of the details responses; it has the identifier
  of a candidate of the search when the details capability answers each batch with
  entries it was asked for. As stated, the claim fails: the handler does not join the
  details back onto the candidates, and an entry the details capability returns without
  being asked is ranked like the others.
\<close>

theorem ranked_output_bounded:
  assumes "search_route e req = (Inr results, calls)" and "query_param req = Some query"
  shows "int (length results) \<le>
           min (requested req) (min INITIAL_FETCH_COUNT (int (length (survivors e query)))) \<and>
         (int (length (survivors e query)) \<le> requested req \<longrightarrow>
            results = map to_VideoItem (sort_by_score (survivors e query)) \<and>
            length results = length (survivors e query)) \<and>
         (\<forall>r \<in> set results. \<exists>d \<in> set (fetched_details e query). v_id d = Some (video_id r)) \<and>
         (details_as_requested e query \<longrightarrow>
            (\<forall>r \<in> set results. video_id r \<in> set (candidate_pool e query)))"
proof -
  note r = results_of_route [OF assms]
  have len: "length results = min (nat (requested req)) (length (survivors e query))"
    using r(1) by (simp add: sort_by_score_def min.commute)
  have 1: "int (length results) \<le>
      min (requested req) (min INITIAL_FETCH_COUNT (int (length (survivors e query))))"
    using len r(2,3) by auto
  have 2: "int (length (survivors e query)) \<le> requested req \<longrightarrow>
      results = map to_VideoItem (sort_by_score (survivors e query)) \<and>
      length results = length (survivors e query)"
    using r(1) len by (auto simp: sort_by_score_def)
  have 3: "\<exists>d \<in> set (fetched_details e query). v_id d = Some (video_id r)"
    if "r \<in> set results" for r
  proof -
    from result_from_details [OF assms that] obtain d v where
      "d \<in> set (fetched_details e query)" "score_video e d = Inr (Some v)" "r = to_VideoItem v"
      by blast
    then show ?thesis
      using score_video_Some [of e d v] by (auto simp: to_VideoItem_def)
  qed
  have 4: "video_id r \<in> set (candidate_pool e query)"
    if h: "details_as_requested e query" and "r \<in> set results" for r
  proof -
    from 3 [OF that(2)] obtain d where d: "d \<in> set (fetched_details e query)"
      "v_id d = Some (video_id r)"
      by blast
    from fetched_from_batch [OF r(5) d(1)] obtain b response where
      b: "b \<in> set (batches (candidate_pool e query) 0)"
      "videos_execute e (join_comma b) = Inr response" "d \<in> set (get_videos_items response)"
      by blast
    with h have "v_id d \<in> Some ` set b"
      by (force simp: details_as_requested_def)
    with d(2) batch_subset [OF b(1)] show ?thesis by auto
  qed
  from 1 2 3 4 show ?thesis by blast
qed

theorem ranked_output_bounded_witness:
  "search_route example_env (example_request ''cats'') =
     (Inr [to_VideoItem (example_scored ''B'' ''2025-01-01T00:00:00Z'' 100 50 (2886153 / 7812500)),
           to_VideoItem (example_scored ''A'' ''2024-01-01T00:00:00Z'' 1000 100 (1001271 / 7812500))],
      [SearchCall ''cats'' 50, VideosCall ''A,B,C'']) \<and>
   details_as_requested example_env ''cats'' \<and>
   length (survivors example_env ''cats'') = 2 \<and>
   video_id ` set [to_VideoItem (example_scored ''B'' ''2025-01-01T00:00:00Z'' 100 50 (2886153 / 7812500)),
                   to_VideoItem (example_scored ''A'' ''2024-01-01T00:00:00Z'' 1000 100 (1001271 / 7812500))]
     \<subseteq> set (candidate_pool example_env ''cats'')"
proof -
  have q: "query_param (example_request ''cats'') = Some ''cats''"
    by (simp add: example_request_def)
  from ranked_output_bounded [OF cats_run q] cats_as_requested
  have "\<forall>r \<in> set [to_VideoItem (example_scored ''B'' ''2025-01-01T00:00:00Z'' 100 50 (2886153 / 7812500)),
                    to_VideoItem (example_scored ''A'' ''2024-01-01T00:00:00Z'' 1000 100 (1001271 / 7812500))].
          video_id r \<in> set (candidate_pool example_env ''cats'')"
    by blast
  then show ?thesis
    using cats_run cats_as_requested by (simp add: cats_survivors)
qed

theorem ranked_output_bounded_counterexample:
  "search_route example_env (example_request ''birds'') =
     (Inr [to_VideoItem (example_scored ''G'' ''2024-01-01T00:00:00Z'' 100 50 (2876271 / 7812500))],
      [SearchCall ''birds'' 50, VideosCall ''F'']) \<and>
   candidate_pool example_env ''birds'' = [''F''] \<and>
   video_id (to_VideoItem (example_scored ''G'' ''2024-01-01T00:00:00Z'' 100 50 (2876271 / 7812500)))
     \<notin> set (candidate_pool example_env ''birds'')"
  using birds_run by (simp add: birds_pool to_VideoItem_def example_scored_def)

subsection \<open>The batches of the details\<close>

text \<open>
  C6. The loop cuts the identifiers into consecutive batches: their concatenation is the
  sequence of identifiers, each batch is non-empty, has at most 50 identifiers and holds
  identifiers of the input only, and the union of the batches is the set of identifiers.
  The outbound details calls are the joined batches, in order: all of them when no call
  raises, and those up to the call that raised otherwise.
\<close>

theorem details_in_batches:
  "concat (batches video_ids 0) = video_ids \<and>
   (\<forall>b \<in> set (batches video_ids 0). b \<noteq> [] \<and> length b \<le> 50 \<and> set b \<subseteq> set video_ids) \<and>
   \<Union> (set ` set (batches video_ids 0)) = set video_ids \<and>
   (\<forall>r calls'. fetch_details exec video_ids 0 detailed_videos calls = (r, calls') \<longrightarrow>
      (\<exists>bs. prefix bs (batches video_ids 0) \<and>
            calls' = calls @ map (\<lambda>b. VideosCall (join_comma b)) bs \<and>
            (\<forall>x. r = Inr x \<longrightarrow> bs = batches video_ids 0)))"
proof -
  have 1: "concat (batches video_ids 0) = video_ids"
    by (simp add: concat_batches)
  have 2: "\<forall>b \<in> set (batches video_ids 0). b \<noteq> [] \<and> length b \<le> 50 \<and> set b \<subseteq> set video_ids"
  proof
    fix b
    assume b: "b \<in> set (batches video_ids 0)"
    from batches_bounds [OF b] batch_subset [OF b]
    show "b \<noteq> [] \<and> length b \<le> 50 \<and> set b \<subseteq> set video_ids"
      by simp
  qed
  have "set (concat (batches video_ids 0)) = set video_ids"
    using 1 by simp
  then have 3: "\<Union> (set ` set (batches video_ids 0)) = set video_ids"
    by simp
  have 4: "\<forall>r calls'. fetch_details exec video_ids 0 detailed_videos calls = (r, calls') \<longrightarrow>
      (\<exists>bs. prefix bs (batches video_ids 0) \<and>
            calls' = calls @ map (\<lambda>b. VideosCall (join_comma b)) bs \<and>
            (\<forall>x. r = Inr x \<longrightarrow> bs = batches video_ids 0))"
    by (intro allI impI) (rule fetch_details_calls)
  from 1 2 3 4 show ?thesis
    by (intro conjI)
qed

theorem details_in_batches_witness:
  "batches (replicate 51 ''x'') 0 = [replicate 50 ''x'', [''x'']] \<and>
   concat (batches (replicate 51 ''x'') 0) = replicate 51 ''x'' \<and>
   fetch_details example_videos [''A'', ''B'', ''C''] 0 [] [] =
     (Inr [video_details ''A'' (Some ''2024-01-01T00:00:00Z'') ''1000'' ''100'',
           video_details ''B'' (Some ''2025-01-01T00:00:00Z'') ''100'' ''50''],
      map (\<lambda>b. VideosCall (join_comma b)) (batches [''A'', ''B'', ''C''] 0))"
proof -
  have "batches (replicate 51 ''x'') 0 = [replicate 50 ''x'', [''x'']]"
    by (simp add: batches.simps)
  moreover have "concat (batches (replicate 51 ''x'') 0) = replicate 51 ''x''"
    using details_in_batches [of "replicate 51 ''x''" example_videos "[]" "[]"] by blast
  moreover have "fetch_details example_videos [''A'', ''B'', ''C''] 0 [] [] =
     (Inr [video_details ''A'' (Some ''2024-01-01T00:00:00Z'') ''1000'' ''100'',
           video_details ''B'' (Some ''2025-01-01T00:00:00Z'') ''100'' ''50''],
      map (\<lambda>b. VideosCall (join_comma b)) (batches [''A'', ''B'', ''C''] 0))"
    by (simp add: cats_fetch cats_batches)
  ultimately show ?thesis by blast
qed

subsection \<open>Candidates without details\<close>

text \<open>
  C7. When a request succeeds, a candidate of the search whose identifier is the
  identifier of no entry of the details responses has no scored entry and is nowhere in
  the output.
\<close>

theorem absent_from_details_dropped:
  assumes "search_route e req = (Inr results, calls)" and "query_param req = Some query"
    and "v \<in> set (candidate_pool e query)"
    and "Some v \<notin> v_id ` set (fetched_details e query)"
  shows "v \<notin> video_id ` set (survivors e query) \<and> v \<notin> video_id ` set results"
proof -
  note r = results_of_route [OF assms(1,2)]
  have "v \<notin> video_id ` set (survivors e query)"
  proof
    assume "v \<in> video_id ` set (survivors e query)"
    then obtain s where s: "s \<in> set (survivors e query)" "video_id s = v"
      by auto
    from score_videos_members [OF r(4)] s(1) obtain d where
      "d \<in> set (fetched_details e query)" "score_video e d = Inr (Some s)"
      by blast
    with s(2) score_video_Some [of e d s] have "Some v \<in> v_id ` set (fetched_details e query)"
      by force
    with assms(4) show False by contradiction
  qed
  moreover have "v \<notin> video_id ` set results"
  proof
    assume "v \<in> video_id ` set results"
    then obtain x where x: "x \<in> set results" "video_id x = v"
      by auto
    from result_from_survivor [OF r(1) x(1)] obtain s where
      "s \<in> set (survivors e query)" "x = to_VideoItem s"
      by blast
    with x(2) have "v \<in> video_id ` set (survivors e query)"
      by (force simp: to_VideoItem_def)
    with \<open>v \<notin> video_id ` set (survivors e query)\<close> show False by contradiction
  qed
  ultimately show ?thesis by simp
qed

theorem absent_from_details_dropped_witness:
  "''C'' \<in> set (candidate_pool example_env ''cats'') \<and>
   Some ''C'' \<notin> v_id ` set (fetched_details example_env ''cats'') \<and>
   ''C'' \<notin> video_id ` set (survivors example_env ''cats'') \<and>
   ''C'' \<notin> video_id ` set
      [to_VideoItem (example_scored ''B'' ''2025-01-01T00:00:00Z'' 100 50 (2886153 / 7812500)),
       to_VideoItem (example_scored ''A'' ''2024-01-01T00:00:00Z'' 1000 100 (1001271 / 7812500))]"
proof -
  have q: "query_param (example_request ''cats'') = Some ''cats''"
    by (simp add: example_request_def)
  have p: "''C'' \<in> set (candidate_pool example_env ''cats'')"
    by (simp add: cats_pool)
  have d: "Some ''C'' \<notin> v_id ` set (fetched_details example_env ''cats'')"
    by (simp add: cats_details video_details_def)
  from absent_from_details_dropped [OF cats_run q p d] p d show ?thesis
    by simp
qed

subsection \<open>Determinism\<close>



subsection \<open>Validation of the request\<close>

text \<open>
  C9, as amended. A request with no query parameter, or with a count outside 1..50, is
  rejected with the validation error of status 422 before any outbound call. A request
  with an empty query is not rejected: where the client is configured, the search call
  is made with the empty query. As stated, the claim fails for the empty query: the route
  declares the parameter as required and puts no constraint on its length.
\<close>

theorem invalid_request_rejected:
  "(query_param req = None \<or> requested req < 1 \<or> INITIAL_FETCH_COUNT < requested req \<longrightarrow>
      search_route e req = (Inl RequestValidationError, []) \<and>
      status_code RequestValidationError = 422) \<and>
   (query_param req = Some [] \<and> 1 \<le> requested req \<and> requested req \<le> INITIAL_FETCH_COUNT \<and>
    get_youtube_service e = Inr () \<longrightarrow>
      SearchCall [] INITIAL_FETCH_COUNT \<in> set (snd (search_route e req)))"
proof -
  have "search_route e req = (Inl RequestValidationError, [])"
    if "query_param req = None \<or> requested req < 1 \<or> INITIAL_FETCH_COUNT < requested req"
    using that by (cases "query_param req") (auto simp: search_route_def requested_def)
  moreover have "SearchCall [] INITIAL_FETCH_COUNT \<in> set (snd (search_route e req))"
    if "query_param req = Some []" "1 \<le> requested req" "requested req \<le> INITIAL_FETCH_COUNT"
      "get_youtube_service e = Inr ()"
  proof -
    from that have "search_route e req = search_videos_custom_score e [] (requested req)"
      by (simp add: search_route_def requested_def)
    with that(4) have "snd (search_route e req) = snd (try_block e [] (requested req))"
      by (simp add: search_videos_calls)
    then show ?thesis
      using try_block_search_call [of "[]" e "requested req"] by simp
  qed
  ultimately show ?thesis by simp
qed

theorem invalid_request_rejected_witness:
  "search_route example_env \<lparr>query_param = None, max_results_param = Some 10\<rparr> =
     (Inl RequestValidationError, []) \<and>
   search_route example_env \<lparr>query_param = Some ''cats'', max_results_param = Some 51\<rparr> =
     (Inl RequestValidationError, []) \<and>
   search_route example_env \<lparr>query_param = Some ''cats'', max_results_param = Some 0\<rparr> =
     (Inl RequestValidationError, []) \<and>
   SearchCall [] INITIAL_FETCH_COUNT \<in> set (snd (search_route example_env (example_request [])))"
  using invalid_request_rejected [of "\<lparr>query_param = None, max_results_param = Some 10\<rparr>" example_env]
    invalid_request_rejected [of "\<lparr>query_param = Some ''cats'', max_results_param = Some 51\<rparr>" example_env]
    invalid_request_rejected [of "\<lparr>query_param = Some ''cats'', max_results_param = Some 0\<rparr>" example_env]
    invalid_request_rejected [of "example_request []" example_env]
  by (simp add: requested_def INITIAL_FETCH_COUNT_def example_request_def example_service)

theorem invalid_request_rejected_counterexample:
  "query_param (example_request []) = Some [] \<and>
   search_route example_env (example_request []) = (Inr [], [SearchCall [] 50])"
  using empty_query_run by (simp add: example_request_def)

subsection \<open>Entries without a date\<close>

text \<open>
  C10. When a request succeeds, the scored entries are those the scoring loop gives on
  the details that have a date: an entry with no date (or an empty one) is skipped, with
  no score, and an entry with a date, parseable or not, has a scored entry. No item of
  the output has an empty date.
\<close>

theorem missing_date_excluded:
  assumes "search_route e req = (Inr results, calls)" and "query_param req = Some query"
  shows "score_videos e (filter has_publishedAt (fetched_details e query)) =
           Inr (survivors e query) \<and>
         (\<forall>d \<in> set (fetched_details e query).
            if has_publishedAt d
            then \<exists>v \<in> set (survivors e query). score_video e d = Inr (Some v)
            else score_video e d = Inr None) \<and>
         (\<forall>r \<in> set results. publishedAt r \<noteq> [])"
proof -
  note r = results_of_route [OF assms]
  have 1: "score_videos e (filter has_publishedAt (fetched_details e query)) =
      Inr (survivors e query)"
    using r(4) by (rule score_videos_filter)
  have 2: "if has_publishedAt d
      then \<exists>v \<in> set (survivors e query). score_video e d = Inr (Some v)
      else score_video e d = Inr None"
    if "d \<in> set (fetched_details e query)" for d
    using score_videos_members [OF r(4)] that score_video_None [of e d] score_video_Some [of e d]
    by (cases "has_publishedAt d") fastforce+
  have 3: "publishedAt x \<noteq> []" if "x \<in> set results" for x
  proof -
    from result_from_details [OF assms that] obtain d v where
      "score_video e d = Inr (Some v)" "x = to_VideoItem v"
      by blast
    then show ?thesis
      using score_video_Some [of e d v] by (simp add: to_VideoItem_def)
  qed
  from 1 2 3 show ?thesis by blast
qed

theorem missing_date_excluded_witness:
  "\<not> has_publishedAt (video_details ''D'' None ''1000'' ''100'') \<and>
   has_publishedAt (video_details ''E'' (Some ''yesterday'') ''100'' ''50'') \<and>
   score_videos example_env
     (filter has_publishedAt
        [video_details ''D'' None ''1000'' ''100'',
         video_details ''E'' (Some ''yesterday'') ''100'' ''50'']) =
     Inr [example_scored ''E'' ''yesterday'' 100 50 (3 / 10)] \<and>
   score_video example_env (video_details ''D'' None ''1000'' ''100'') = Inr None"
proof -
  have q: "query_param (example_request ''dogs'') = Some ''dogs''"
    by (simp add: example_request_def)
  have h: "\<not> has_publishedAt (video_details ''D'' None ''1000'' ''100'')"
    "has_publishedAt (video_details ''E'' (Some ''yesterday'') ''100'' ''50'')"
    by (simp_all add: has_publishedAt_def video_details_def get_snippet_def)
  from missing_date_excluded [OF dogs_run q]
  have "score_videos example_env (filter has_publishedAt (fetched_details example_env ''dogs'')) =
      Inr (survivors example_env ''dogs'')"
    and "\<forall>d \<in> set (fetched_details example_env ''dogs'').
      if has_publishedAt d
      then \<exists>v \<in> set (survivors example_env ''dogs''). score_video example_env d = Inr (Some v)
      else score_video example_env d = Inr None"
    by blast+
  then show ?thesis
    using h by (simp add: dogs_details dogs_survivors)
qed

end
